theory Spec2Isabelle
  imports Main
begin

section \<open>JavaScript values and property reads\<close>

text \<open>
  The program is one browser script, \<^verbatim>\<open>src/script.js\<close>. Strings are modelled as
  \<^typ>\<open>string\<close>: one \<^typ>\<open>char\<close> per code unit, for texts whose code units lie in the
  Latin-1 range. The values the validator reads out of its two tables are arrays of
  strings, \<^verbatim>\<open>undefined\<close>, or a member inherited from \<^verbatim>\<open>Object.prototype\<close>.
\<close>

datatype jsval =
    Undefined
  | StrArray "string list"
  | ProtoMember

datatype error = TypeError

text \<open>
  An object literal and the result of \<^verbatim>\<open>JSON.parse\<close> both have \<^verbatim>\<open>Object.prototype\<close> as
  prototype. A read \<^verbatim>\<open>obj[key]\<close> returns the own property when there is one, and otherwise
  what \<^verbatim>\<open>Object.prototype\<close> holds under that name: a function (or, for \<^verbatim>\<open>__proto__\<close>,
  the prototype object itself). These inherited values are truthy, are not iterable and
  have no \<^verbatim>\<open>includes\<close> method. Only for every other name the read gives \<^verbatim>\<open>undefined\<close>.
\<close>

definition objectPrototypeNames :: "string list" where
  "objectPrototypeNames =
     [''constructor'', ''hasOwnProperty'', ''isPrototypeOf'', ''propertyIsEnumerable'',
      ''toLocaleString'', ''toString'', ''valueOf'', ''__proto__'',
      ''__defineGetter__'', ''__defineSetter__'', ''__lookupGetter__'', ''__lookupSetter__'']"

definition getProp :: "(string \<rightharpoonup> string list) \<Rightarrow> string \<Rightarrow> jsval" where
  "getProp obj key =
     (case obj key of
        Some v \<Rightarrow> StrArray v
      | None \<Rightarrow> if key \<in> set objectPrototypeNames then ProtoMember else Undefined)"

fun truthy :: "jsval \<Rightarrow> bool" where
  "truthy Undefined = False"
| "truthy (StrArray v) = True"
| "truthy ProtoMember = True"

section \<open>The label mapping table\<close>

text \<open>The own properties of \<^verbatim>\<open>posMapping\<close> (script.js, lines 33 to 49), in source order.\<close>

definition posMappingEntries :: "(string \<times> string list) list" where
  "posMappingEntries =
     [(''adverb'', [''#Adverb'']),
      (''verb'', [''#Verb'']),
      (''adjective'', [''#Adjective'']),
      (''noun'', [''#Noun'']),
      (''preposition'', [''#Preposition'']),
      (''conjunction'', [''#Conjunction'']),
      (''determiner'', [''#Determiner'']),
      (''pronoun'', [''#Pronoun'']),
      (''be-verb'', [''#Copula'']),
      (''modal auxi'', [''#Modal'']),
      (''interjection'', [''#Interjection'']),
      (''do-verb'', [''#Verb'', ''#Auxiliary'']),
      (''number'', [''#Value'', ''#NumericValue'', ''#Cardinal'', ''#Ordinal'']),
      (''have-verb'', [''#Verb'', ''#Auxiliary'']),
      (''infinitive-to'', [''#Infinitive''])]"

definition posMapping :: "string \<Rightarrow> jsval" where
  "posMapping userLabel = getProp (map_of posMappingEntries) userLabel"

section \<open>String helpers of the host language\<close>

text \<open>
  \<^verbatim>\<open>String.prototype.toLowerCase\<close> on Latin-1 code units: the letters A to Z and the
  accented capitals 0xC0 to 0xDE (without the multiplication sign 0xD7) move up by 32,
  every other unit stays.
\<close>

definition toLowerChar :: "char \<Rightarrow> char" where
  "toLowerChar c =
     (let n = (of_char c :: nat) in
      if (65 \<le> n \<and> n \<le> 90) \<or> (192 \<le> n \<and> n \<le> 222 \<and> n \<noteq> 215)
      then char_of (n + 32) else c)"

definition toLowerCase :: "string \<Rightarrow> string" where
  "toLowerCase s = map toLowerChar s"

text \<open>
  \<^verbatim>\<open>!text.trim()\<close> holds exactly when every code unit of the text is white space or a
  line terminator (tab, line feed, vertical tab, form feed, carriage return, space,
  no-break space).
\<close>

definition isWhiteSpaceChar :: "char \<Rightarrow> bool" where
  "isWhiteSpaceChar c = (of_char c \<in> set [9, 10, 11, 12, 13, 32, 160 :: nat])"

definition trimIsEmpty :: "string \<Rightarrow> bool" where
  "trimIsEmpty s = list_all isWhiteSpaceChar s"

text \<open>\<^verbatim>\<open>escapeHtml\<close> (lines 232 to 241): each of the five special characters is replaced.\<close>

definition escapeChar :: "char \<Rightarrow> string" where
  "escapeChar m =
     (if m = CHR ''&'' then ''&amp;''
      else if m = CHR ''<'' then ''&lt;''
      else if m = CHR ''>'' then ''&gt;''
      else if m = CHR 0x22 then ''&quot;''
      else if m = CHR 0x27 then ''&#039;''
      else [m])"

definition escapeHtml :: "string \<Rightarrow> string" where
  "escapeHtml s = concat (map escapeChar s)"

text \<open>\<^verbatim>\<open>xs.includes(s)\<close>: defined on arrays; calling it on anything else is a TypeError.\<close>

fun arrayIncludes :: "jsval \<Rightarrow> string \<Rightarrow> error + bool" where
  "arrayIncludes (StrArray xs) s = Inr (s \<in> set xs)"
| "arrayIncludes Undefined s = Inl TypeError"
| "arrayIncludes ProtoMember s = Inl TypeError"

text \<open>\<^verbatim>\<open>a && b\<close> with \<open>a\<close> a boolean: \<open>b\<close> is evaluated only when \<open>a\<close> holds.\<close>

definition andAlso :: "bool \<Rightarrow> (error + bool) \<Rightarrow> error + bool" where
  "andAlso a b = (if a then b else Inr False)"

section \<open>The tagger and the vocabulary\<close>

text \<open>
  The tagger (the \<^verbatim>\<open>compromise\<close> library) is external. It is used in two ways:
  \<^verbatim>\<open>compromise(text).terms().json()\<close> gives the terms of a text, and
  \<^verbatim>\<open>compromise(w).normalize({lemma: true}).text()\<close> the normalised form of one word.
  Both are parameters of the model. A term carries its text and the keys of its tag
  object.
\<close>

record termData =
  term_text :: string
  term_tags :: "string list"

record compromise =
  termsJson :: "string \<Rightarrow> termData list"
  normalizeText :: "string \<Rightarrow> string"

text \<open>
  \<^verbatim>\<open>currentWordList\<close>: the own properties of the parsed vocabulary file, each lemma with
  its array of labels. The initial and the reset value \<^verbatim>\<open>{}\<close> is \<^term>\<open>Map.empty\<close>.
\<close>

type_synonym wordList = "string \<rightharpoonup> string list"

section \<open>isPosAllowed\<close>

text \<open>
  \<^verbatim>\<open>compromiseTags.some(tag => targetCompromiseTags.includes('#' + tag))\<close> (line 119):
  no call is made for an empty tag array; the first call fails when the target has no
  \<^verbatim>\<open>includes\<close>.
\<close>

fun someTagIncluded :: "string list \<Rightarrow> jsval \<Rightarrow> error + bool" where
  "someTagIncluded [] target = Inr False"
| "someTagIncluded (tag # rest) target =
     (case arrayIncludes target (CHR ''#'' # tag) of
        Inl e \<Rightarrow> Inl e
      | Inr True \<Rightarrow> Inr True
      | Inr False \<Rightarrow> someTagIncluded rest target)"

text \<open>The body of the \<^verbatim>\<open>for ... of\<close> loop of lines 111 to 123, over the remaining labels.\<close>

fun isPosAllowedLoop :: "string list \<Rightarrow> string list \<Rightarrow> error + bool" where
  "isPosAllowedLoop compromiseTags [] = Inr False"
| "isPosAllowedLoop compromiseTags (userLabel # rest) =
     (let targetCompromiseTags = posMapping userLabel in
      if truthy targetCompromiseTags then
        (case someTagIncluded compromiseTags targetCompromiseTags of
           Inl e \<Rightarrow> Inl e
         | Inr True \<Rightarrow> Inr True
         | Inr False \<Rightarrow> isPosAllowedLoop compromiseTags rest)
      else isPosAllowedLoop compromiseTags rest)"

text \<open>\<^verbatim>\<open>for ... of\<close> needs an iterable: an array here; anything else is a TypeError.\<close>

fun isPosAllowed :: "string list \<Rightarrow> jsval \<Rightarrow> error + bool" where
  "isPosAllowed compromiseTags (StrArray allowedUserPosLabels) =
     isPosAllowedLoop compromiseTags allowedUserPosLabels"
| "isPosAllowed compromiseTags Undefined = Inl TypeError"
| "isPosAllowed compromiseTags ProtoMember = Inl TypeError"

section \<open>checkContent\<close>

text \<open>The test of lines 158 and 166: a word that is neither punctuation nor white space.\<close>

definition isCheckedWord :: "string list \<Rightarrow> bool" where
  "isCheckedWord tags =
     (''Word'' \<in> set tags \<and> ''Punctuation'' \<notin> set tags
        \<and> ''Whitespace'' \<notin> set tags)"

text \<open>Line 170: the normalised text, or the lower-cased word when that is empty.\<close>

definition lemmaOf :: "compromise \<Rightarrow> string \<Rightarrow> string" where
  "lemmaOf nlp wordText =
     (let normalized = normalizeText nlp wordText in
      if normalized \<noteq> [] then normalized else toLowerCase wordText)"

text \<open>Lines 179 to 191: the rule for the word "to".\<close>

definition toRule :: "string list \<Rightarrow> jsval \<Rightarrow> error + bool" where
  "toRule tags allowedUserPosLabels =
     (let isInfTo = (''Infinitive'' \<in> set tags);
          isPrep = (''Preposition'' \<in> set tags)
      in case andAlso isInfTo (arrayIncludes allowedUserPosLabels ''infinitive-to'') of
           Inl e \<Rightarrow> Inl e
         | Inr True \<Rightarrow> Inr True
         | Inr False \<Rightarrow> andAlso isPrep (arrayIncludes allowedUserPosLabels ''preposition''))"

text \<open>Lines 163 to 208: the value of \<^verbatim>\<open>isValid\<close> for one term.\<close>

definition termIsValid :: "compromise \<Rightarrow> wordList \<Rightarrow> termData \<Rightarrow> error + bool" where
  "termIsValid nlp currentWordList termData =
     (let wordText = term_text termData; tags = term_tags termData in
      if isCheckedWord tags then
        (let lemma = lemmaOf nlp wordText;
             allowedUserPosLabels = getProp currentWordList lemma
         in if truthy allowedUserPosLabels then
              (if toLowerCase wordText = ''to'' then toRule tags allowedUserPosLabels
               else isPosAllowed tags allowedUserPosLabels)
            else Inr False)
      else Inr True)"

text \<open>Lines 212 to 217: what is appended to \<^verbatim>\<open>htmlOutput\<close> for one term.\<close>

definition renderTerm :: "bool \<Rightarrow> string \<Rightarrow> string" where
  \<open>renderTerm isValid wordText =
     (if isValid then escapeHtml wordText
      else ''<span class="invalid-word">'' @ escapeHtml wordText @ ''</span>'')\<close>

text \<open>The two accumulators of the \<^verbatim>\<open>forEach\<close> loop.\<close>

record loopState =
  wordCount :: nat
  htmlOutput :: string

text \<open>Lines 151 to 218: the callback of \<^verbatim>\<open>terms.forEach\<close>. An exception leaves the loop.\<close>

definition forEachBody :: "compromise \<Rightarrow> wordList \<Rightarrow> loopState \<Rightarrow> termData \<Rightarrow> error + loopState" where
  "forEachBody nlp wl acc termData =
     (let wordText = term_text termData; tags = term_tags termData;
          counted = (if isCheckedWord tags then wordCount acc + 1 else wordCount acc)
      in case termIsValid nlp wl termData of
           Inl e \<Rightarrow> Inl e
         | Inr isValid \<Rightarrow>
             Inr \<lparr>wordCount = counted,
                  htmlOutput = htmlOutput acc @ renderTerm isValid wordText\<rparr>)"

fun forEachTerm :: "compromise \<Rightarrow> wordList \<Rightarrow> termData list \<Rightarrow> loopState \<Rightarrow> error + loopState" where
  "forEachTerm nlp wl [] acc = Inr acc"
| "forEachTerm nlp wl (termData # rest) acc =
     (case forEachBody nlp wl acc termData of
        Inl e \<Rightarrow> Inl e
      | Inr acc' \<Rightarrow> forEachTerm nlp wl rest acc')"

text \<open>
  The page: the editor's text, the two display areas (the word count display shows a
  fixed label followed by the number kept here), the three controls switched during a
  load, the number of alerts raised, and the global \<^verbatim>\<open>currentWordList\<close>.
\<close>

record page =
  editor_value :: string
  highlightArea_innerHTML :: string
  wordCountDisplay :: nat
  loadingIndicator_shown :: bool
  wordlistSelect_disabled :: bool
  editor_disabled :: bool
  alerts :: nat
  currentWordList :: wordList

text \<open>
  \<^verbatim>\<open>checkContent\<close> (lines 131 to 225). The displays are written after the loop, so an
  exception inside the loop leaves the page as it was.
\<close>

definition checkContent :: "compromise \<Rightarrow> page \<Rightarrow> error + page" where
  "checkContent nlp pg =
     (let text = editor_value pg in
      if trimIsEmpty text
      then Inr (pg\<lparr>highlightArea_innerHTML := [], wordCountDisplay := 0\<rparr>)
      else
        (case forEachTerm nlp (currentWordList pg) (termsJson nlp text)
                \<lparr>wordCount = 0, htmlOutput = []\<rparr> of
           Inl e \<Rightarrow> Inl e
         | Inr out \<Rightarrow>
             Inr (pg\<lparr>wordCountDisplay := wordCount out,
                     highlightArea_innerHTML := htmlOutput out\<rparr>)))"

section \<open>loadWordList\<close>

text \<open>
  What \<^verbatim>\<open>fetch\<close> and \<^verbatim>\<open>response.json()\<close> can come to: the fetch is rejected, the
  response is not ok (with its status), the body is not JSON, or a vocabulary is parsed.
  One load is modelled as one step from the page before it to the page after it.
\<close>

datatype fetchOutcome =
    FetchRejected
  | ResponseNotOk nat
  | JsonRejected
  | JsonParsed wordList

text \<open>The \<^verbatim>\<open>catch\<close> block (lines 91 to 94) and the \<^verbatim>\<open>finally\<close> block (lines 95 to 100).\<close>

definition loadCatch :: "page \<Rightarrow> page" where
  "loadCatch pg = pg\<lparr>alerts := alerts pg + 1, currentWordList := Map.empty\<rparr>"

definition loadFinally :: "page \<Rightarrow> page" where
  "loadFinally pg =
     pg\<lparr>loadingIndicator_shown := False, wordlistSelect_disabled := False,
        editor_disabled := False\<rparr>"

definition loadWordList :: "compromise \<Rightarrow> fetchOutcome \<Rightarrow> page \<Rightarrow> page" where
  "loadWordList nlp outcome pg =
     (let pg1 = pg\<lparr>loadingIndicator_shown := True, wordlistSelect_disabled := True,
                   editor_disabled := True\<rparr>
      in loadFinally
           (case outcome of
              JsonParsed wl \<Rightarrow>
                (let pg2 = pg1\<lparr>currentWordList := wl\<rparr>
                 in case checkContent nlp pg2 of
                      Inr pg3 \<Rightarrow> pg3
                    | Inl e \<Rightarrow> loadCatch pg2)
            | FetchRejected \<Rightarrow> loadCatch pg1
            | ResponseNotOk status \<Rightarrow> loadCatch pg1
            | JsonRejected \<Rightarrow> loadCatch pg1))"

section \<open>Sample inputs\<close>

text \<open>
  A tagger whose normalisation yields nothing, so that line 170 falls back to the
  lower-cased word, and one that normalises "went" to "go". Neither is asked for terms.
\<close>

definition fallbackTagger :: compromise where
  "fallbackTagger = \<lparr>termsJson = (\<lambda>text. []), normalizeText = (\<lambda>w. [])\<rparr>"

definition lemmaTagger :: compromise where
  "lemmaTagger =
     \<lparr>termsJson = (\<lambda>text. []), normalizeText = (\<lambda>w. if w = ''went'' then ''go'' else [])\<rparr>"

text \<open>The vocabulary and the tagged sentence "I go home." of the specification's scenario.\<close>

definition sampleWordList :: wordList where
  "sampleWordList = [''i'' \<mapsto> [''pronoun''], ''go'' \<mapsto> [''verb''], ''home'' \<mapsto> [''noun'']]"

definition sampleTerms :: "termData list" where
  "sampleTerms =
     [\<lparr>term_text = ''I'', term_tags = [''Pronoun'', ''Word'']\<rparr>,
      \<lparr>term_text = ''go'', term_tags = [''Verb'', ''Word'']\<rparr>,
      \<lparr>term_text = ''home'', term_tags = [''Noun'', ''Word'']\<rparr>,
      \<lparr>term_text = ''.'', term_tags = [''Punctuation'']\<rparr>]"

definition samplePage :: page where
  "samplePage =
     \<lparr>editor_value = ''I go home.'', highlightArea_innerHTML = [], wordCountDisplay = 0,
      loadingIndicator_shown = False, wordlistSelect_disabled = False,
      editor_disabled = False, alerts = 0, currentWordList = sampleWordList\<rparr>"

text \<open>
  A text with the word "constructor": its two terms, a tagger that yields them, and a page
  that shows the count of an earlier pass.
\<close>

definition constructorTerms :: "termData list" where
  "constructorTerms =
     [\<lparr>term_text = ''I'', term_tags = [''Pronoun'', ''Word'']\<rparr>,
      \<lparr>term_text = ''constructor'', term_tags = [''Noun'', ''Word'']\<rparr>]"

definition constructorTagger :: compromise where
  "constructorTagger = \<lparr>termsJson = (\<lambda>text. constructorTerms), normalizeText = (\<lambda>w. [])\<rparr>"

definition constructorPage :: page where
  "constructorPage =
     \<lparr>editor_value = ''I constructor'', highlightArea_innerHTML = ''I'', wordCountDisplay = 1,
      loadingIndicator_shown = False, wordlistSelect_disabled = False,
      editor_disabled = False, alerts = 0, currentWordList = sampleWordList\<rparr>"

section \<open>Facts about the label loop\<close>

lemma posMapping_own:
  "map_of posMappingEntries l = Some ts \<Longrightarrow> posMapping l = StrArray ts"
  by (simp add: posMapping_def getProp_def)

lemma posMapping_absent:
  "l \<notin> set (map fst posMappingEntries) \<Longrightarrow> l \<notin> set objectPrototypeNames
     \<Longrightarrow> posMapping l = Undefined"
  by (simp add: posMapping_def getProp_def map_of_eq_None_iff[THEN iffD2])

lemma inherited_names_not_labels:
  "list_all (\<lambda>n. map_of posMappingEntries n = None) objectPrototypeNames"
  by code_simp

lemma posMapping_inherited:
  assumes "l \<in> set objectPrototypeNames"
  shows "posMapping l = ProtoMember"
proof -
  from assms inherited_names_not_labels have "map_of posMappingEntries l = None"
    by (simp add: list_all_iff)
  with assms show ?thesis by (simp add: posMapping_def getProp_def)
qed

lemma someTagIncluded_array:
  "someTagIncluded tags (StrArray ts) = Inr (\<exists>tag\<in>set tags. (CHR ''#'' # tag) \<in> set ts)"
  by (induction tags) (auto split: bool.splits)

lemma someTagIncluded_inherited:
  "tags \<noteq> [] \<Longrightarrow> someTagIncluded tags ProtoMember = Inl TypeError"
  by (cases tags) auto

text \<open>
  Away from the names of \<^verbatim>\<open>Object.prototype\<close> the loop is the existential test: some
  allowed label has an entry one of whose tags, without its \<open>#\<close>, is a tag of the term.
\<close>

lemma isPosAllowedLoop_plain:
  assumes "set labels \<inter> set objectPrototypeNames = {}"
  shows "isPosAllowedLoop tags labels =
           Inr (\<exists>l\<in>set labels. \<exists>ts. map_of posMappingEntries l = Some ts
                  \<and> (\<exists>tag\<in>set tags. (CHR ''#'' # tag) \<in> set ts))"
  using assms
proof (induction labels)
  case Nil
  then show ?case by simp
next
  case (Cons l labels)
  then have l: "l \<notin> set objectPrototypeNames"
    and rest: "set labels \<inter> set objectPrototypeNames = {}"
    by auto
  show ?case
  proof (cases "map_of posMappingEntries l")
    case None
    with l have "posMapping l = Undefined" by (simp add: posMapping_def getProp_def)
    with None Cons.IH[OF rest] show ?thesis by simp
  next
    case (Some ts)
    then have "posMapping l = StrArray ts" by (rule posMapping_own)
    with Some Cons.IH[OF rest] show ?thesis
      by (auto simp: someTagIncluded_array split: bool.splits)
  qed
qed

lemma isPosAllowedLoop_append:
  "isPosAllowedLoop tags L = Inr True \<Longrightarrow> isPosAllowedLoop tags (L @ M) = Inr True"
  by (induction L) (auto simp: Let_def split: sum.splits bool.splits if_splits)

lemma termIsValid_generic:
  assumes "isCheckedWord (term_tags t)"
    and "toLowerCase (term_text t) \<noteq> ''to''"
    and "wl (lemmaOf nlp (term_text t)) = Some ls"
    and "set ls \<inter> set objectPrototypeNames = {}"
  shows "termIsValid nlp wl t =
           Inr (\<exists>l\<in>set ls. \<exists>ts. map_of posMappingEntries l = Some ts
                  \<and> (\<exists>tag\<in>set (term_tags t). (CHR ''#'' # tag) \<in> set ts))"
  using assms
  by (simp add: termIsValid_def getProp_def Let_def isPosAllowedLoop_plain)

lemma termIsValid_absent:
  assumes "isCheckedWord (term_tags t)"
    and "wl (lemmaOf nlp (term_text t)) = None"
    and "lemmaOf nlp (term_text t) \<notin> set objectPrototypeNames"
  shows "termIsValid nlp wl t = Inr False"
  using assms by (simp add: termIsValid_def getProp_def Let_def)

text \<open>
  Appending labels to the entry of any lemma keeps a valid term valid, on the path for
  "to" as on the generic path.
\<close>

lemma termIsValid_append_mono:
  assumes "wl k = Some L"
    and "termIsValid nlp wl t = Inr True"
  shows "termIsValid nlp (wl(k \<mapsto> L @ M)) t = Inr True"
proof (cases "isCheckedWord (term_tags t)")
  case False
  then show ?thesis by (simp add: termIsValid_def Let_def)
next
  case checked: True
  show ?thesis
  proof (cases "lemmaOf nlp (term_text t) = k")
    case False
    then have "getProp (wl(k \<mapsto> L @ M)) (lemmaOf nlp (term_text t))
                 = getProp wl (lemmaOf nlp (term_text t))"
      by (simp add: getProp_def)
    then have "termIsValid nlp (wl(k \<mapsto> L @ M)) t = termIsValid nlp wl t"
      by (simp add: termIsValid_def Let_def)
    with assms(2) show ?thesis by simp
  next
    case True
    with assms(1) have old: "getProp wl (lemmaOf nlp (term_text t)) = StrArray L"
      and new: "getProp (wl(k \<mapsto> L @ M)) (lemmaOf nlp (term_text t)) = StrArray (L @ M)"
      by (simp_all add: getProp_def)
    show ?thesis
    proof (cases "toLowerCase (term_text t) = ''to''")
      case True
      with assms(2) checked old have "toRule (term_tags t) (StrArray L) = Inr True"
        by (simp add: termIsValid_def Let_def)
      then have "toRule (term_tags t) (StrArray (L @ M)) = Inr True"
        by (auto simp: toRule_def andAlso_def Let_def split: if_splits bool.splits)
      with True checked new show ?thesis by (simp add: termIsValid_def Let_def)
    next
      case False
      with assms(2) checked old have "isPosAllowedLoop (term_tags t) L = Inr True"
        by (simp add: termIsValid_def Let_def)
      then have "isPosAllowedLoop (term_tags t) (L @ M) = Inr True"
        by (rule isPosAllowedLoop_append)
      with False checked new show ?thesis by (simp add: termIsValid_def Let_def)
    qed
  qed
qed

section \<open>Facts about the loop over the terms\<close>

lemma forEachTerm_Inr:
  "list_all (\<lambda>t. \<not> isl (termIsValid nlp wl t)) ts \<Longrightarrow>
   forEachTerm nlp wl ts acc =
     Inr \<lparr>wordCount = wordCount acc + length (filter (\<lambda>t. isCheckedWord (term_tags t)) ts),
          htmlOutput = htmlOutput acc
            @ concat (map (\<lambda>t. renderTerm (projr (termIsValid nlp wl t)) (term_text t)) ts)\<rparr>"
proof (induction ts arbitrary: acc)
  case Nil
  then show ?case by simp
next
  case (Cons t ts)
  then obtain v where v: "termIsValid nlp wl t = Inr v"
    by (cases "termIsValid nlp wl t") auto
  from Cons.prems have "list_all (\<lambda>t. \<not> isl (termIsValid nlp wl t)) ts" by simp
  from Cons.IH[OF this] v show ?case
    by (simp add: forEachBody_def Let_def)
qed

lemma forEachTerm_Inl:
  "\<not> list_all (\<lambda>t. \<not> isl (termIsValid nlp wl t)) ts \<Longrightarrow>
   forEachTerm nlp wl ts acc = Inl TypeError"
proof (induction ts arbitrary: acc)
  case Nil
  then show ?case by simp
next
  case (Cons t ts)
  show ?case
  proof (cases "termIsValid nlp wl t")
    case (Inl e)
    then show ?thesis by (cases e) (simp add: forEachBody_def Let_def)
  next
    case (Inr v)
    with Cons.prems have "\<not> list_all (\<lambda>t. \<not> isl (termIsValid nlp wl t)) ts" by simp
    from Cons.IH[OF this] Inr show ?thesis by (simp add: forEachBody_def Let_def)
  qed
qed

lemma escapeHtml_plain:
  "set w \<inter> {CHR ''&'', CHR ''<'', CHR ''>'', CHR 0x22, CHR 0x27} = {} \<Longrightarrow> escapeHtml w = w"
  by (induction w) (auto simp: escapeHtml_def escapeChar_def)

lemma checkContent_blank:
  "trimIsEmpty (editor_value pg) \<Longrightarrow>
   checkContent nlp pg = Inr (pg\<lparr>highlightArea_innerHTML := [], wordCountDisplay := 0\<rparr>)"
  by (simp add: checkContent_def)

lemma checkContent_wordCount:
  assumes "\<not> trimIsEmpty (editor_value pg)"
    and "checkContent nlp pg = Inr pg'"
  shows "wordCountDisplay pg' =
           length (filter (\<lambda>t. isCheckedWord (term_tags t)) (termsJson nlp (editor_value pg)))"
proof (cases "list_all (\<lambda>t. \<not> isl (termIsValid nlp (currentWordList pg) t))
                (termsJson nlp (editor_value pg))")
  case True
  from forEachTerm_Inr[OF True, of "\<lparr>wordCount = 0, htmlOutput = []\<rparr>"] assms
  show ?thesis by (auto simp: checkContent_def Let_def)
next
  case False
  from forEachTerm_Inl[OF False, of "\<lparr>wordCount = 0, htmlOutput = []\<rparr>"] assms
  show ?thesis by (simp add: checkContent_def Let_def)
qed

lemma loadWordList_failure:
  assumes "outcome = FetchRejected \<or> outcome = ResponseNotOk status \<or> outcome = JsonRejected"
  shows "currentWordList (loadWordList nlp outcome pg) = Map.empty"
    and "alerts (loadWordList nlp outcome pg) = alerts pg + 1"
    and "\<not> editor_disabled (loadWordList nlp outcome pg)"
  using assms by (auto simp: loadWordList_def loadCatch_def loadFinally_def)

section \<open>The token validator\<close>

text \<open>
  Claim C1, as amended. For a term that is checked at all (its tags contain \<open>Word\<close> and
  neither \<open>Punctuation\<close> nor \<open>Whitespace\<close>), whose text is "to" up to case and whose
  lemma is a key of the vocabulary, the term is valid exactly when it is tagged
  \<open>Infinitive\<close> and the entry contains \<open>infinitive-to\<close>, or it is tagged \<open>Preposition\<close>
  and the entry contains \<open>preposition\<close>. The result is fixed by the tags and the entry
  alone: \<^const>\<open>isPosAllowed\<close> and the label mapping table play no part in it.
\<close>

theorem C1_to_rule:
  assumes "isCheckedWord (term_tags t)"
    and "toLowerCase (term_text t) = ''to''"
    and "wl (lemmaOf nlp (term_text t)) = Some ls"
  shows "termIsValid nlp wl t =
           Inr ((''Infinitive'' \<in> set (term_tags t) \<and> ''infinitive-to'' \<in> set ls)
              \<or> (''Preposition'' \<in> set (term_tags t) \<and> ''preposition'' \<in> set ls))"
  using assms
  by (simp add: termIsValid_def getProp_def toRule_def andAlso_def Let_def split: bool.splits)

theorem C1_to_rule_witness:
  "isCheckedWord (term_tags \<lparr>term_text = ''To'', term_tags = [''Infinitive'', ''Word'']\<rparr>)
   \<and> toLowerCase (term_text \<lparr>term_text = ''To'', term_tags = [''Infinitive'', ''Word'']\<rparr>) = ''to''
   \<and> [''to'' \<mapsto> [''infinitive-to'']]
        (lemmaOf fallbackTagger (term_text \<lparr>term_text = ''To'', term_tags = [''Infinitive'', ''Word'']\<rparr>))
       = Some [''infinitive-to'']
   \<and> termIsValid fallbackTagger [''to'' \<mapsto> [''infinitive-to'']]
         \<lparr>term_text = ''To'', term_tags = [''Infinitive'', ''Word'']\<rparr> = Inr True"
proof -
  let ?t = "\<lparr>term_text = ''To'', term_tags = [''Infinitive'', ''Word'']\<rparr>"
  have h1: "isCheckedWord (term_tags ?t)" by code_simp
  have h2: "toLowerCase (term_text ?t) = ''to''" by code_simp
  have h3: "[''to'' \<mapsto> [''infinitive-to'']] (lemmaOf fallbackTagger (term_text ?t))
              = Some [''infinitive-to'']" by code_simp
  from C1_to_rule[where t = ?t and nlp = fallbackTagger
        and wl = "[''to'' \<mapsto> [''infinitive-to'']]" and ls = "[''infinitive-to'']", OF h1 h2 h3]
    h1 h2 h3
  show ?thesis by simp
qed

text \<open>
  Without the restriction to checked terms the statement fails: a "To" that carries no
  \<open>Word\<close> tag is valid by line 207 although neither of the two conditions holds.
\<close>

theorem C1_exempt_to_counterexample:
  "toLowerCase ''To'' = ''to''
   \<and> [''to'' \<mapsto> [''verb'']] (lemmaOf fallbackTagger ''To'') = Some [''verb'']
   \<and> termIsValid fallbackTagger [''to'' \<mapsto> [''verb'']]
        \<lparr>term_text = ''To'', term_tags = [''Preposition'']\<rparr> = Inr True
   \<and> \<not> ((''Infinitive'' \<in> set [''Preposition''] \<and> ''infinitive-to'' \<in> set [''verb''])
        \<or> (''Preposition'' \<in> set [''Preposition''] \<and> ''preposition'' \<in> set [''verb'']))"
  by code_simp

text \<open>
  Claim C2 says that a checked term other than "to" whose lemma is in the vocabulary is
  valid exactly when some allowed label has a mapping entry that meets the term's tags,
  and that allowed labels without such an entry give invalid, never an error. Lemma
  \<open>termIsValid_generic\<close> shows this for entries free of the names of
  \<^verbatim>\<open>Object.prototype\<close>. For the label \<open>constructor\<close>, which has no mapping entry, the read
  \<^verbatim>\<open>posMapping[userLabel]\<close> of line 113 yields the inherited function, the guard of line
  115 lets it pass, and line 119 throws.
\<close>

theorem C2_inherited_label_throws:
  "[''go'' \<mapsto> [''constructor'']] (lemmaOf fallbackTagger ''go'') = Some [''constructor'']
   \<and> map_of posMappingEntries ''constructor'' = None
   \<and> termIsValid fallbackTagger [''go'' \<mapsto> [''constructor'']]
        \<lparr>term_text = ''go'', term_tags = [''Verb'', ''Word'']\<rparr> = Inl TypeError"
  by code_simp

text \<open>
  Claim C3. A term whose tags do not contain \<open>Word\<close>, or contain \<open>Punctuation\<close> or
  \<open>Whitespace\<close>, is valid, whatever the vocabulary holds and whatever the tagger is.
\<close>

theorem C3_exempt_valid:
  assumes "''Word'' \<notin> set (term_tags t) \<or> ''Punctuation'' \<in> set (term_tags t)
             \<or> ''Whitespace'' \<in> set (term_tags t)"
  shows "termIsValid nlp wl t = Inr True"
  using assms by (auto simp: termIsValid_def isCheckedWord_def Let_def)

theorem C3_exempt_valid_witness:
  "''Punctuation'' \<in> set (term_tags \<lparr>term_text = ''.'', term_tags = [''Punctuation'', ''Word'']\<rparr>)
   \<and> termIsValid fallbackTagger Map.empty
        \<lparr>term_text = ''.'', term_tags = [''Punctuation'', ''Word'']\<rparr> = Inr True"
proof -
  let ?t = "\<lparr>term_text = ''.'', term_tags = [''Punctuation'', ''Word'']\<rparr>"
  have p: "''Punctuation'' \<in> set (term_tags ?t)" by simp
  then have h: "''Word'' \<notin> set (term_tags ?t) \<or> ''Punctuation'' \<in> set (term_tags ?t)
             \<or> ''Whitespace'' \<in> set (term_tags ?t)" by blast
  from C3_exempt_valid[where t = ?t and nlp = fallbackTagger and wl = Map.empty, OF h] p
  show ?thesis by blast
qed

text \<open>
  Claim C4 says that a checked term whose lemma is not a key of the vocabulary is
  invalid. Lemma \<open>termIsValid_absent\<close> shows this for every lemma that is not a name of
  \<^verbatim>\<open>Object.prototype\<close>. For the word "constructor" the read \<^verbatim>\<open>currentWordList[lemma]\<close> of
  line 174 yields the inherited function, the test of line 177 takes it for an entry, and
  the \<^verbatim>\<open>for ... of\<close> of line 111 throws.
\<close>

theorem C4_inherited_lemma_throws:
  "isCheckedWord [''Noun'', ''Word'']
   \<and> sampleWordList (lemmaOf fallbackTagger ''constructor'') = None
   \<and> termIsValid fallbackTagger sampleWordList
        \<lparr>term_text = ''constructor'', term_tags = [''Noun'', ''Word'']\<rparr> = Inl TypeError"
  by code_simp

section \<open>The label mapping table, entry by entry\<close>

lemma posMapping_entries:
  "posMapping ''adverb'' = StrArray [''#Adverb'']
   \<and> posMapping ''verb'' = StrArray [''#Verb'']
   \<and> posMapping ''adjective'' = StrArray [''#Adjective'']
   \<and> posMapping ''noun'' = StrArray [''#Noun'']
   \<and> posMapping ''preposition'' = StrArray [''#Preposition'']
   \<and> posMapping ''conjunction'' = StrArray [''#Conjunction'']
   \<and> posMapping ''determiner'' = StrArray [''#Determiner'']
   \<and> posMapping ''pronoun'' = StrArray [''#Pronoun'']
   \<and> posMapping ''be-verb'' = StrArray [''#Copula'']
   \<and> posMapping ''modal auxi'' = StrArray [''#Modal'']
   \<and> posMapping ''interjection'' = StrArray [''#Interjection'']
   \<and> posMapping ''do-verb'' = StrArray [''#Verb'', ''#Auxiliary'']
   \<and> posMapping ''number'' = StrArray [''#Value'', ''#NumericValue'', ''#Cardinal'', ''#Ordinal'']
   \<and> posMapping ''have-verb'' = StrArray [''#Verb'', ''#Auxiliary'']
   \<and> posMapping ''infinitive-to'' = StrArray [''#Infinitive'']
   \<and> posMapping ''modal-auxiliary'' = Undefined"
  by code_simp

text \<open>
  Claim C5, as amended. The table holds the fifteen entries of lines 34 to 48; each tag is
  stored with a leading \<open>#\<close> and line 119 compares it with \<open>#\<close> followed by a tag of the
  term. The entry for \<open>#Modal\<close> has the key \<open>modal auxi\<close>; there is no key
  \<open>modal-auxiliary\<close>, and a read of it gives \<^verbatim>\<open>undefined\<close>. A label that has no entry and
  is not a name of \<^verbatim>\<open>Object.prototype\<close> reads as \<^verbatim>\<open>undefined\<close> and is passed over by the
  loop: the result is that of the remaining labels.
\<close>

theorem C5_posMapping_table:
  "posMapping ''adverb'' = StrArray [''#Adverb'']
   \<and> posMapping ''verb'' = StrArray [''#Verb'']
   \<and> posMapping ''adjective'' = StrArray [''#Adjective'']
   \<and> posMapping ''noun'' = StrArray [''#Noun'']
   \<and> posMapping ''preposition'' = StrArray [''#Preposition'']
   \<and> posMapping ''conjunction'' = StrArray [''#Conjunction'']
   \<and> posMapping ''determiner'' = StrArray [''#Determiner'']
   \<and> posMapping ''pronoun'' = StrArray [''#Pronoun'']
   \<and> posMapping ''be-verb'' = StrArray [''#Copula'']
   \<and> posMapping ''modal auxi'' = StrArray [''#Modal'']
   \<and> posMapping ''interjection'' = StrArray [''#Interjection'']
   \<and> posMapping ''do-verb'' = StrArray [''#Verb'', ''#Auxiliary'']
   \<and> posMapping ''number'' = StrArray [''#Value'', ''#NumericValue'', ''#Cardinal'', ''#Ordinal'']
   \<and> posMapping ''have-verb'' = StrArray [''#Verb'', ''#Auxiliary'']
   \<and> posMapping ''infinitive-to'' = StrArray [''#Infinitive'']
   \<and> posMapping ''modal-auxiliary'' = Undefined
   \<and> (label \<notin> set (map fst posMappingEntries) \<and> label \<notin> set objectPrototypeNames \<longrightarrow>
         posMapping label = Undefined
         \<and> isPosAllowedLoop tags (label # rest) = isPosAllowedLoop tags rest)"
proof -
  have "label \<notin> set (map fst posMappingEntries) \<and> label \<notin> set objectPrototypeNames \<longrightarrow>
         posMapping label = Undefined
         \<and> isPosAllowedLoop tags (label # rest) = isPosAllowedLoop tags rest"
    using posMapping_absent[of label] by simp
  with posMapping_entries show ?thesis by simp
qed

theorem C5_posMapping_table_witness:
  "''article'' \<notin> set (map fst posMappingEntries)
   \<and> ''article'' \<notin> set objectPrototypeNames
   \<and> posMapping ''article'' = Undefined
   \<and> isPosAllowedLoop [''Verb'', ''Word''] [''article'', ''verb'']
       = isPosAllowedLoop [''Verb'', ''Word''] [''verb'']"
proof -
  have h1: "''article'' \<notin> set (map fst posMappingEntries)" by code_simp
  have h2: "''article'' \<notin> set objectPrototypeNames" by code_simp
  from C5_posMapping_table[where label = "''article''" and tags = "[''Verb'', ''Word'']"
      and rest = "[''verb'']"] h1 h2
  show ?thesis by simp
qed

text \<open>
  The claim names the key \<open>modal-auxiliary\<close>. With the table of the source a term tagged
  \<open>Modal\<close> is invalid under the label \<open>modal-auxiliary\<close> and valid under \<open>modal auxi\<close>.
\<close>

theorem C5_modal_auxiliary_counterexample:
  "posMapping ''modal-auxiliary'' = Undefined
   \<and> posMapping ''modal-auxiliary'' \<noteq> StrArray [''#Modal'']
   \<and> termIsValid fallbackTagger [''can'' \<mapsto> [''modal-auxiliary'']]
        \<lparr>term_text = ''can'', term_tags = [''Modal'', ''Word'']\<rparr> = Inr False
   \<and> termIsValid fallbackTagger [''can'' \<mapsto> [''modal auxi'']]
        \<lparr>term_text = ''can'', term_tags = [''Modal'', ''Word'']\<rparr> = Inr True"
  by code_simp

section \<open>Loading a vocabulary\<close>

text \<open>
  Claim C6 says that a failed load leaves the empty vocabulary, and that against it every
  checked term is invalid. The first half holds for each of the three failures (lemma
  \<open>loadWordList_failure\<close>). The second half holds for every lemma that is not a name of
  \<^verbatim>\<open>Object.prototype\<close> (lemma \<open>termIsValid_absent\<close>); for the word "constructor" the
  validation against the empty vocabulary throws, as it does against any vocabulary
  without that key.
\<close>

theorem C6_reset_then_inherited_lemma_throws:
  "currentWordList (loadWordList nlp FetchRejected pg) = Map.empty
   \<and> currentWordList (loadWordList nlp (ResponseNotOk status) pg) = Map.empty
   \<and> currentWordList (loadWordList nlp JsonRejected pg) = Map.empty
   \<and> isCheckedWord [''Noun'', ''Word'']
   \<and> termIsValid fallbackTagger (currentWordList (loadWordList nlp JsonRejected pg))
        \<lparr>term_text = ''constructor'', term_tags = [''Noun'', ''Word'']\<rparr> = Inl TypeError"
proof -
  have reset: "currentWordList (loadWordList nlp FetchRejected pg) = Map.empty"
    "currentWordList (loadWordList nlp (ResponseNotOk status) pg) = Map.empty"
    "currentWordList (loadWordList nlp JsonRejected pg) = Map.empty"
    by (simp_all add: loadWordList_failure(1))
  have w: "isCheckedWord [''Noun'', ''Word'']" by code_simp
  have t: "termIsValid fallbackTagger Map.empty
        \<lparr>term_text = ''constructor'', term_tags = [''Noun'', ''Word'']\<rparr> = Inl TypeError"
    by code_simp
  from reset w t show ?thesis by simp
qed

section \<open>The loop over the terms\<close>

text \<open>
  Claim C7, as amended. When the loop completes, \<^verbatim>\<open>htmlOutput\<close> is the concatenation of
  one fragment per term, in the order of the terms: the text of the term after
  \<^const>\<open>escapeHtml\<close>, and wrapped in the \<^verbatim>\<open>invalid-word\<close> span when the term is invalid.
  No term is left out, moved or merged with another one.
\<close>

theorem C7_fragments:
  assumes "forEachTerm nlp wl ts \<lparr>wordCount = 0, htmlOutput = []\<rparr> = Inr out"
  shows "htmlOutput out =
           concat (map (\<lambda>t. renderTerm (termIsValid nlp wl t = Inr True) (term_text t)) ts)
       \<and> length (map (\<lambda>t. renderTerm (termIsValid nlp wl t = Inr True) (term_text t)) ts)
           = length ts"
proof -
  have ok: "list_all (\<lambda>t. \<not> isl (termIsValid nlp wl t)) ts"
  proof (rule ccontr)
    assume "\<not> list_all (\<lambda>t. \<not> isl (termIsValid nlp wl t)) ts"
    from forEachTerm_Inl[OF this, of "\<lparr>wordCount = 0, htmlOutput = []\<rparr>"] assms
    show False by simp
  qed
  have same: "renderTerm (projr (termIsValid nlp wl t)) (term_text t)
                = renderTerm (termIsValid nlp wl t = Inr True) (term_text t)"
    if "t \<in> set ts" for t
  proof -
    from that ok have "\<not> isl (termIsValid nlp wl t)" by (simp add: list_all_iff)
    then obtain v where "termIsValid nlp wl t = Inr v"
      by (cases "termIsValid nlp wl t") auto
    then show ?thesis by simp
  qed
  then have "map (\<lambda>t. renderTerm (projr (termIsValid nlp wl t)) (term_text t)) ts
               = map (\<lambda>t. renderTerm (termIsValid nlp wl t = Inr True) (term_text t)) ts"
    by simp
  with forEachTerm_Inr[OF ok, of "\<lparr>wordCount = 0, htmlOutput = []\<rparr>"] assms
  show ?thesis by simp
qed

theorem C7_fragments_witness:
  \<open>forEachTerm fallbackTagger [''i'' \<mapsto> [''pronoun''], ''go'' \<mapsto> [''verb'']] sampleTerms
      \<lparr>wordCount = 0, htmlOutput = []\<rparr>
     = Inr \<lparr>wordCount = 3, htmlOutput = ''Igo<span class="invalid-word">home</span>.''\<rparr>
   \<and> ''Igo<span class="invalid-word">home</span>.''
       = concat (map (\<lambda>t. renderTerm
                   (termIsValid fallbackTagger [''i'' \<mapsto> [''pronoun''], ''go'' \<mapsto> [''verb'']] t
                      = Inr True) (term_text t)) sampleTerms)\<close>
proof -
  have h: \<open>forEachTerm fallbackTagger [''i'' \<mapsto> [''pronoun''], ''go'' \<mapsto> [''verb'']] sampleTerms
      \<lparr>wordCount = 0, htmlOutput = []\<rparr>
     = Inr \<lparr>wordCount = 3, htmlOutput = ''Igo<span class="invalid-word">home</span>.''\<rparr>\<close>
    by code_simp
  from C7_fragments[OF h] h show ?thesis by simp
qed

text \<open>
  The claim says that the text of a term is appended as it is. Lines 213 and 216 append
  the escaped text: for the valid term "AT&T" the output differs from the text.
\<close>

theorem C7_escaped_text_counterexample:
  "forEachTerm fallbackTagger [''at&t'' \<mapsto> [''noun'']]
      [\<lparr>term_text = ''AT&T'', term_tags = [''Noun'', ''Word'']\<rparr>]
      \<lparr>wordCount = 0, htmlOutput = []\<rparr>
     = Inr \<lparr>wordCount = 1, htmlOutput = ''AT&amp;T''\<rparr>
   \<and> ''AT&amp;T'' \<noteq> ''AT&T''"
  by code_simp

text \<open>
  Whenever the loop completes, the word count is the number of terms whose tags contain
  \<open>Word\<close> and neither \<open>Punctuation\<close> nor \<open>Whitespace\<close>; the vocabulary and the validity
  of the terms do not enter the number. The loop completes exactly when no validation of
  a term throws.
\<close>

lemma forEachTerm_wordCount:
  "(\<forall>out. forEachTerm nlp wl ts \<lparr>wordCount = 0, htmlOutput = []\<rparr> = Inr out \<longrightarrow>
      wordCount out = length (filter (\<lambda>t. isCheckedWord (term_tags t)) ts))
   \<and> (list_all (\<lambda>t. \<not> isl (termIsValid nlp wl t)) ts \<longrightarrow>
        (\<exists>out. forEachTerm nlp wl ts \<lparr>wordCount = 0, htmlOutput = []\<rparr> = Inr out))"
proof (cases "list_all (\<lambda>t. \<not> isl (termIsValid nlp wl t)) ts")
  case True
  from forEachTerm_Inr[OF True, of "\<lparr>wordCount = 0, htmlOutput = []\<rparr>"]
  show ?thesis by simp
next
  case False
  from forEachTerm_Inl[OF False, of "\<lparr>wordCount = 0, htmlOutput = []\<rparr>"] False
  show ?thesis by simp
qed

lemma forEachTerm_wordCount_sample:
  "forEachTerm fallbackTagger sampleWordList sampleTerms \<lparr>wordCount = 0, htmlOutput = []\<rparr>
     = Inr \<lparr>wordCount = 3, htmlOutput = ''Igohome.''\<rparr>
   \<and> length (filter (\<lambda>t. isCheckedWord (term_tags t)) sampleTerms) = 3"
  by code_simp

text \<open>
  Claim C8 says that for every tagged document and every vocabulary the word count
  produced is the number of terms whose tags contain \<open>Word\<close> and neither \<open>Punctuation\<close>
  nor \<open>Whitespace\<close>. Lemma \<open>forEachTerm_wordCount\<close> shows this for every pass that
  completes. A document with the word "constructor" has two such terms, but the
  validation of the second one throws inside the loop (the read of line 174 yields the
  inherited function), line 222 is never reached, and no count is produced: the page
  keeps the count of the earlier pass.
\<close>

theorem C8_inherited_lemma_stops_count:
  "length (filter (\<lambda>t. isCheckedWord (term_tags t)) constructorTerms) = 2
   \<and> termsJson constructorTagger (editor_value constructorPage) = constructorTerms
   \<and> forEachTerm constructorTagger (currentWordList constructorPage) constructorTerms
        \<lparr>wordCount = 0, htmlOutput = []\<rparr> = Inl TypeError
   \<and> checkContent constructorTagger constructorPage = Inl TypeError
   \<and> wordCountDisplay constructorPage = 1"
proof -
  have n: "length (filter (\<lambda>t. isCheckedWord (term_tags t)) constructorTerms) = 2"
    by code_simp
  have tj: "termsJson constructorTagger (editor_value constructorPage) = constructorTerms"
    by (simp add: constructorTagger_def)
  have f: "forEachTerm constructorTagger (currentWordList constructorPage) constructorTerms
             \<lparr>wordCount = 0, htmlOutput = []\<rparr> = Inl TypeError"
    by code_simp
  have b: "\<not> trimIsEmpty (editor_value constructorPage)"
    by code_simp
  from tj f b have c: "checkContent constructorTagger constructorPage = Inl TypeError"
    by (simp add: checkContent_def Let_def)
  have d: "wordCountDisplay constructorPage = 1"
    by (simp add: constructorPage_def)
  from n tj f c d show ?thesis by simp
qed

section \<open>The lemma of a term\<close>

text \<open>
  Claim C9. For a checked term the key looked up in the vocabulary is the tagger's
  normalised text when that is not empty, and the lower-cased text of the term when it is
  empty. The validity of the term is computed from the value read under that key, and
  from no other part of the vocabulary.
\<close>

theorem C9_lookup_lemma:
  assumes "isCheckedWord (term_tags t)"
  shows "(normalizeText nlp (term_text t) \<noteq> [] \<longrightarrow>
            lemmaOf nlp (term_text t) = normalizeText nlp (term_text t))
       \<and> (normalizeText nlp (term_text t) = [] \<longrightarrow>
            lemmaOf nlp (term_text t) = toLowerCase (term_text t))
       \<and> termIsValid nlp wl t =
           (case getProp wl (lemmaOf nlp (term_text t)) of
              Undefined \<Rightarrow> Inr False
            | StrArray labels \<Rightarrow>
                if toLowerCase (term_text t) = ''to'' then toRule (term_tags t) (StrArray labels)
                else isPosAllowed (term_tags t) (StrArray labels)
            | ProtoMember \<Rightarrow>
                if toLowerCase (term_text t) = ''to'' then toRule (term_tags t) ProtoMember
                else isPosAllowed (term_tags t) ProtoMember)
       \<and> (\<forall>wl'. wl' (lemmaOf nlp (term_text t)) = wl (lemmaOf nlp (term_text t)) \<longrightarrow>
             termIsValid nlp wl' t = termIsValid nlp wl t)"
  using assms
  by (auto simp: termIsValid_def lemmaOf_def getProp_def Let_def split: jsval.splits option.splits)

theorem C9_lookup_lemma_witness:
  "isCheckedWord (term_tags \<lparr>term_text = ''went'', term_tags = [''Verb'', ''Word'']\<rparr>)
   \<and> normalizeText lemmaTagger ''went'' = ''go''
   \<and> lemmaOf lemmaTagger ''went'' = ''go''
   \<and> termIsValid lemmaTagger sampleWordList
        \<lparr>term_text = ''went'', term_tags = [''Verb'', ''Word'']\<rparr> = Inr True
   \<and> normalizeText fallbackTagger ''Went'' = []
   \<and> lemmaOf fallbackTagger ''Went'' = ''went''
   \<and> termIsValid fallbackTagger sampleWordList
        \<lparr>term_text = ''Went'', term_tags = [''Verb'', ''Word'']\<rparr> = Inr False"
proof -
  let ?t = "\<lparr>term_text = ''went'', term_tags = [''Verb'', ''Word'']\<rparr>"
  let ?u = "\<lparr>term_text = ''Went'', term_tags = [''Verb'', ''Word'']\<rparr>"
  have ht: "isCheckedWord (term_tags ?t)" by code_simp
  have hu: "isCheckedWord (term_tags ?u)" by code_simp
  have n1: "normalizeText lemmaTagger ''went'' = ''go''" by (simp add: lemmaTagger_def)
  have n2: "normalizeText fallbackTagger ''Went'' = []" by (simp add: fallbackTagger_def)
  have lo: "toLowerCase ''Went'' = ''went''" by code_simp
  from C9_lookup_lemma[where t = ?t and nlp = lemmaTagger and wl = sampleWordList, OF ht] n1
  have l1: "lemmaOf lemmaTagger ''went'' = ''go''" by simp
  from C9_lookup_lemma[where t = ?u and nlp = fallbackTagger and wl = sampleWordList, OF hu] n2 lo
  have l2: "lemmaOf fallbackTagger ''Went'' = ''went''" by simp
  have v1: "termIsValid lemmaTagger sampleWordList ?t = Inr True" by code_simp
  have v2: "termIsValid fallbackTagger sampleWordList ?u = Inr False" by code_simp
  from ht n1 l1 v1 n2 l2 v2 show ?thesis by simp
qed

section \<open>Growing an entry\<close>

text \<open>
  Claim C10 says that a term valid under a list of labels stays valid when labels are
  appended, and that a label without a mapping entry never keeps a later label from
  matching. The first part holds (lemma \<open>termIsValid_append_mono\<close>). The second part
  holds for labels that are not names of \<^verbatim>\<open>Object.prototype\<close> (lemma
  \<open>isPosAllowedLoop_plain\<close>); the label \<open>constructor\<close>, which has no mapping entry, placed
  before \<open>verb\<close> makes the validation throw before \<open>verb\<close> is reached.
\<close>

theorem C10_inherited_label_blocks_later_label:
  "termIsValid fallbackTagger [''go'' \<mapsto> [''verb'']]
        \<lparr>term_text = ''go'', term_tags = [''Verb'', ''Word'']\<rparr> = Inr True
   \<and> termIsValid fallbackTagger [''go'' \<mapsto> [''article'', ''verb'']]
        \<lparr>term_text = ''go'', term_tags = [''Verb'', ''Word'']\<rparr> = Inr True
   \<and> map_of posMappingEntries ''constructor'' = None
   \<and> termIsValid fallbackTagger [''go'' \<mapsto> [''constructor'', ''verb'']]
        \<lparr>term_text = ''go'', term_tags = [''Verb'', ''Word'']\<rparr> = Inl TypeError"
  by code_simp

end
